theory Spec2Isabelle
  imports Complex_Main "HOL-Library.Sublist"
begin

section \<open>Shipstation order synchronisation: data model\<close>

text \<open>
  The development embeds \<^verbatim>\<open>shipstation_integration/orders.py\<close>. Monetary amounts
  (Python \<^verbatim>\<open>Decimal\<close> and \<^verbatim>\<open>float\<close> values) are exact rationals; a Python value
  that may be \<^verbatim>\<open>None\<close> (or an attribute that may be missing) is an \<open>option\<close>; dates are
  day numbers. Strings are ASCII.
\<close>

type_synonym money = rat

text \<open>The exceptions the module can meet: Python's, and any failure of formula evaluation.\<close>

datatype error = IndexError | TypeError | ReError | EvalError

text \<open>An entry of \<^verbatim>\<open>item.options\<close>: its \<^verbatim>\<open>name\<close> and its \<^verbatim>\<open>value\<close>.\<close>

record ss_option =
  opt_name :: string
  opt_value :: string

text \<open>\<^verbatim>\<open>ShipStationOrderItem\<close>, the fields the module reads.\<close>

record ss_item =
  quantity :: int
  unit_price :: "money option"
  line_item_key :: "string option"
  order_item_id :: nat
  options :: "ss_option list option"

text \<open>\<^verbatim>\<open>order.advanced_options\<close>.\<close>

record ss_advanced_options =
  warehouse_id :: "nat option"

text \<open>\<^verbatim>\<open>ShipStationOrder\<close>; \<open>order_items = None\<close> is an order without the attribute \<^verbatim>\<open>items\<close>.\<close>

record ss_order =
  order_id :: nat
  order_number :: string
  customer_email :: string
  customer_notes :: "string option"
  internal_notes :: "string option"
  order_date :: "nat option"
  ship_date :: "nat option"
  create_date :: "nat option"
  order_items :: "ss_item list option"
  tax_amount :: "money option"
  shipping_amount :: "money option"
  amount_paid :: "money option"
  advanced_options :: ss_advanced_options

text \<open>\<^verbatim>\<open>ShipstationStore\<close>, a row of the settings' store table.\<close>

record store =
  store_id :: nat
  store_name :: string
  store_customer :: "string option"
  marketplace_name :: string
  store_company :: string
  parent :: string
  store_sales_partner :: "string option"
  is_amazon_store :: bool
  is_shopify_store :: bool
  enable_orders :: bool
  warehouse :: string
  tax_account :: string
  shipping_income_account :: string
  difference_account :: string
  commission_account :: string
  cost_center :: string
  apply_commission :: bool
  withholding :: bool

text \<open>\<^verbatim>\<open>ShipstationSettings\<close>.\<close>

record settings =
  settings_name :: string
  enabled :: bool
  shipstation_user :: "string option"
  active_warehouse_ids :: "nat option list"
  since_date :: "nat option"
  shipstation_stores :: "store list"

text \<open>A row of the Sales Order's \<^verbatim>\<open>items\<close> table, as appended at lines 186-198.\<close>

record so_item =
  item_code :: string
  qty :: int
  uom :: string
  conversion_factor :: nat
  rate :: money
  item_warehouse :: string
  shipstation_order_item_id :: nat
  shipstation_item_notes :: "string option"

text \<open>A row of the Sales Order's \<^verbatim>\<open>taxes\<close> table (a charge line).\<close>

record charge =
  charge_type :: string
  account_head :: string
  description :: string
  charge_amount :: money
  charge_cost_center :: string
  included_in_paid_amount :: nat

text \<open>
  The Sales Order document. \<open>name = None\<close> until the document is first saved;
  \<open>docstatus = 1\<close> is a submitted document.
\<close>

record sales_order =
  name :: "string option"
  docstatus :: nat
  shipstation_store_name :: string
  shipstation_order_id :: nat
  shipstation_customer_notes :: "string option"
  shipstation_internal_notes :: "string option"
  marketplace :: string
  marketplace_order_id :: string
  customer :: string
  customer_name :: string
  company :: string
  transaction_date :: nat
  delivery_date :: nat
  shipping_address_name :: "string option"
  customer_primary_address :: "string option"
  integration_doctype :: string
  integration_doc :: string
  has_pii :: bool
  sales_partner :: "string option"
  items :: "so_item list"
  taxes :: "charge list"
  dont_update_if_missing :: "string list"
  apply_discount_on :: "string option"
  discount_amount :: money
  grand_total :: money

record customer_doc =
  customer_docname :: string
  customer_address :: "string option"

section \<open>The world outside the module\<close>

datatype event =
  SetUser string
  | Saved sales_order
  | Submitted sales_order
  | Commit
  | AfterSubmitHook string store "sales_order option" ss_order
  | LogError string

text \<open>
  The database's Sales Order table and the log of the effects performed, oldest first.
\<close>

record world =
  db :: "sales_order list"
  trace :: "event list"

text \<open>
  Everything the module reaches through \<^verbatim>\<open>frappe\<close> and its sibling modules, none of it
  under the repository's sources, is a parameter:
  \<^item> \<open>get_hooks\<close> is \<^verbatim>\<open>frappe.get_hooks\<close> (hook name to the registered dotted paths), and the
    \<open>attr_\<close> fields are \<^verbatim>\<open>frappe.get_attr\<close> at each kind of hook;
  \<^item> \<open>calculate_totals\<close> is the grand total that saving a Sales Order computes, \<open>new_name\<close>
    the naming of a new document;
  \<^item> \<open>partner_formula\<close> is \<^verbatim>\<open>frappe.db.get_value("Sales Partner", p, "commission_formula")\<close>;
  \<^item> \<open>doc_attr so v\<close> is \<^verbatim>\<open>str(getattr(so, v))\<close> when \<^verbatim>\<open>hasattr(so, v)\<close> and \<open>None\<close> otherwise;
  \<^item> \<open>safe_eval\<close> is \<^verbatim>\<open>frappe.safe_eval\<close>, returning a number or \<^verbatim>\<open>None\<close>, or raising;
  \<^item> \<open>compile_template\<close> is the expansion \<^verbatim>\<open>re.sub\<close> applies to a replacement string that
    contains a backslash (it may raise \<^verbatim>\<open>re.error\<close>; the result maps the matched text to
    its replacement);
  \<^item> \<open>str_number\<close> is Python's formatting of a number inside an f-string.
\<close>

record env =
  get_hooks :: "string \<Rightarrow> string list"
  attr_update_order :: "string \<Rightarrow> store \<Rightarrow> ss_order \<Rightarrow> sales_order \<Rightarrow> sales_order"
  attr_process_items :: "string \<Rightarrow> ss_item list \<Rightarrow> ss_item list"
  attr_before_submit :: "string \<Rightarrow> store \<Rightarrow> sales_order \<Rightarrow> ss_order \<Rightarrow> sales_order option"
  attr_process_order :: "string \<Rightarrow> ss_order \<Rightarrow> store \<Rightarrow> bool"
  today :: nat
  get_cached_customer :: "string \<Rightarrow> customer_doc"
  create_customer :: "ss_order \<Rightarrow> customer_doc"
  get_billing_address :: "string \<Rightarrow> string option"
  get_settings_doc :: "string \<Rightarrow> settings"
  create_item :: "ss_item \<Rightarrow> settings \<Rightarrow> store \<Rightarrow> string"
  stock_uom :: string
  new_name :: "sales_order list \<Rightarrow> string"
  calculate_totals :: "sales_order \<Rightarrow> money"
  partner_formula :: "string option \<Rightarrow> string option"
  doc_attr :: "sales_order \<Rightarrow> string \<Rightarrow> string option"
  safe_eval :: "string \<Rightarrow> error + money option"
  compile_template :: "string \<Rightarrow> error + (string \<Rightarrow> string)"
  str_number :: "money \<Rightarrow> string"

section \<open>Python truthiness and \<^verbatim>\<open>frappe.utils\<close>\<close>

definition truthy_str :: "string option \<Rightarrow> bool" where
  "truthy_str s = (case s of None \<Rightarrow> False | Some t \<Rightarrow> t \<noteq> [])"

definition truthy_money :: "money option \<Rightarrow> bool" where
  "truthy_money m = (case m of None \<Rightarrow> False | Some x \<Rightarrow> x \<noteq> 0)"

text \<open>\<^verbatim>\<open>getdate\<close>: the date of its argument, today's date for \<^verbatim>\<open>None\<close>.\<close>

definition getdate :: "env \<Rightarrow> nat option \<Rightarrow> nat" where
  "getdate e d = (case d of None \<Rightarrow> today e | Some x \<Rightarrow> x)"

text \<open>\<^verbatim>\<open>flt\<close> without a precision: the number itself, 0.0 for \<^verbatim>\<open>None\<close>.\<close>

definition flt :: "money option \<Rightarrow> money" where
  "flt v = (case v of None \<Rightarrow> 0 | Some x \<Rightarrow> x)"

section \<open>The persistence layer\<close>

text \<open>
  The persistence layer (\<^verbatim>\<open>frappe.db.get_value\<close>, \<^verbatim>\<open>Document.save\<close>, \<^verbatim>\<open>Document.submit\<close>,
  \<^verbatim>\<open>frappe.db.commit\<close>) belongs to the frappe framework, not to this repository. Its
  contract is written out here: saving names a new document, computes its grand total and
  stores the row under its name; submitting does the same with \<open>docstatus = 1\<close>; neither
  raises. \<open>get_submitted_order\<close> is the query of line 102; a document's name is a non-empty
  string, so the query's result is truthy exactly when a row is found.
\<close>

definition get_submitted_order :: "world \<Rightarrow> nat \<Rightarrow> sales_order option" where
  "get_submitted_order w oid =
     find (\<lambda>r. shipstation_order_id r = oid \<and> docstatus r = 1) (db w)"

definition upsert :: "sales_order \<Rightarrow> sales_order list \<Rightarrow> sales_order list" where
  "upsert so rows =
     (if list_ex (\<lambda>r. name r = name so) rows
      then map (\<lambda>r. if name r = name so then so else r) rows
      else rows @ [so])"

definition store_doc :: "env \<Rightarrow> sales_order \<Rightarrow> world \<Rightarrow> sales_order" where
  "store_doc e so w =
     so\<lparr>name := Some (case name so of None \<Rightarrow> new_name e (db w) | Some n \<Rightarrow> n),
        grand_total := calculate_totals e so\<rparr>"

definition save :: "env \<Rightarrow> sales_order \<Rightarrow> world \<Rightarrow> sales_order \<times> world" where
  "save e so w =
     (let so' = store_doc e so w
      in (so', w\<lparr>db := upsert so' (db w), trace := trace w @ [Saved so']\<rparr>))"

definition submit :: "env \<Rightarrow> sales_order \<Rightarrow> world \<Rightarrow> sales_order \<times> world" where
  "submit e so w =
     (let so' = store_doc e (so\<lparr>docstatus := 1\<rparr>) w
      in (so', w\<lparr>db := upsert so' (db w), trace := trace w @ [Submitted so']\<rparr>))"

definition commit :: "world \<Rightarrow> world" where
  "commit w = w\<lparr>trace := trace w @ [Commit]\<rparr>"

definition set_user :: "string \<Rightarrow> world \<Rightarrow> world" where
  "set_user u w = w\<lparr>trace := trace w @ [SetUser u]\<rparr>"

section \<open>\<^verbatim>\<open>validate_order\<close> (lines 93-117)\<close>

definition validate_order :: "env \<Rightarrow> world \<Rightarrow> settings \<Rightarrow> ss_order option \<Rightarrow> store \<Rightarrow> bool" where
  "validate_order e w sett order st =
     (case order of
        None \<Rightarrow> False
      | Some ord \<Rightarrow>
          if get_submitted_order w (order_id ord) \<noteq> None then False
          else if active_warehouse_ids sett \<noteq> []
                  \<and> warehouse_id (advanced_options ord) \<notin> set (active_warehouse_ids sett)
          then False
          else if (case since_date sett of
                     None \<Rightarrow> False
                   | Some d \<Rightarrow> getdate e (create_date ord) < d)
          then False
          else True)"

section \<open>The commission formula (lines 316-332)\<close>

text \<open>
  The character classes of Python's \<^verbatim>\<open>re\<close> on ASCII text: \<^verbatim>\<open>\s\<close> is the white space
  \<^verbatim>\<open>[ \t\n\r\f\v]\<close> and the separators 28 to 31, \<^verbatim>\<open>\w\<close> is \<^verbatim>\<open>[A-Za-z0-9_]\<close>.
\<close>

definition is_space :: "char \<Rightarrow> bool" where
  "is_space c = (let n = (of_char c :: nat) in (9 \<le> n \<and> n \<le> 13) \<or> (28 \<le> n \<and> n \<le> 32))"

definition is_word :: "char \<Rightarrow> bool" where
  "is_word c =
     (let n = (of_char c :: nat)
      in (48 \<le> n \<and> n \<le> 57) \<or> (65 \<le> n \<and> n \<le> 90) \<or> n = 95 \<or> (97 \<le> n \<and> n \<le> 122))"

text \<open>A literal piece of a pattern: the text after it, when the text starts with it.\<close>

definition literal :: "string \<Rightarrow> string \<Rightarrow> string option" where
  "literal p s = (if prefix p s then Some (drop (length p) s) else None)"

text \<open>
  \<^verbatim>\<open>{{\s*(\w+)\s*}}\<close> matched at the start of a text: the captured name and the text after
  the match. White space, word characters and braces are disjoint classes, so the greedy
  match is the only one.
\<close>

definition match_placeholder :: "string \<Rightarrow> (string \<times> string) option" where
  "match_placeholder s =
     (case literal ''{{'' s of
        None \<Rightarrow> None
      | Some r \<Rightarrow>
          (let r1 = dropWhile is_space r; v = takeWhile is_word r1
           in if v = [] then None
              else (case literal ''}}'' (dropWhile is_space (dropWhile is_word r1)) of
                      None \<Rightarrow> None
                    | Some rest \<Rightarrow> Some (v, rest))))"

text \<open>
  \<^verbatim>\<open>{{\s*\<close> + \<^verbatim>\<open>re.escape(var)\<close> + \<^verbatim>\<open>\s*}}\<close> matched at the start of a text, for a name
  \<open>var\<close> of word characters (which \<^verbatim>\<open>re.escape\<close> leaves as they are).
\<close>

definition match_var :: "string \<Rightarrow> string \<Rightarrow> string option" where
  "match_var var s =
     (case literal ''{{'' s of
        None \<Rightarrow> None
      | Some r \<Rightarrow>
          (case literal var (dropWhile is_space r) of
             None \<Rightarrow> None
           | Some r2 \<Rightarrow> literal ''}}'' (dropWhile is_space r2)))"

lemma literal_length: "literal p s = Some r \<Longrightarrow> length r + length p = length s"
  by (auto simp: literal_def prefix_def split: if_splits)

lemma match_placeholder_length:
  assumes "match_placeholder s = Some (v, rest)"
  shows "length rest < length s"
proof -
  from assms obtain r where r: "literal ''{{'' s = Some r"
    and r3: "literal ''}}'' (dropWhile is_space (dropWhile is_word (dropWhile is_space r))) = Some rest"
    by (auto simp: match_placeholder_def Let_def split: option.splits if_splits)
  have "length (dropWhile is_space (dropWhile is_word (dropWhile is_space r))) \<le> length r"
    by (meson length_dropWhile_le order_trans)
  with literal_length[OF r] literal_length[OF r3] show ?thesis by simp
qed

lemma match_var_length:
  assumes "match_var var s = Some rest"
  shows "length rest < length s"
proof -
  from assms obtain r r2 where r: "literal ''{{'' s = Some r"
    and r2: "literal var (dropWhile is_space r) = Some r2"
    and r3: "literal ''}}'' (dropWhile is_space r2) = Some rest"
    by (auto simp: match_var_def split: option.splits)
  have "length (dropWhile is_space r2) \<le> length r2" "length (dropWhile is_space r) \<le> length r"
    by (rule length_dropWhile_le)+
  with literal_length[OF r] literal_length[OF r2] literal_length[OF r3] show ?thesis by simp
qed

text \<open>\<^verbatim>\<open>re.findall(variable_pattern, commission_formula)\<close>: the names captured by the
  matches, leftmost first, each search starting where the last match ended.\<close>

function findall :: "string \<Rightarrow> string list" where
  "findall [] = []"
| "findall (c # cs) =
     (case match_placeholder (c # cs) of
        Some (v, rest) \<Rightarrow> v # findall rest
      | None \<Rightarrow> findall cs)"
  by pat_completeness auto
termination
  by (relation "measure length") (auto dest: match_placeholder_length)

text \<open>\<^verbatim>\<open>re.sub\<close> with the pattern of \<open>var\<close>: every match is replaced by what \<open>repl\<close> gives
  for the matched text, the other characters are kept.\<close>

function sub_matches :: "string \<Rightarrow> (string \<Rightarrow> string) \<Rightarrow> string \<Rightarrow> string" where
  "sub_matches var repl [] = []"
| "sub_matches var repl (c # cs) =
     (case match_var var (c # cs) of
        Some rest \<Rightarrow> repl (take (length (c # cs) - length rest) (c # cs)) @ sub_matches var repl rest
      | None \<Rightarrow> c # sub_matches var repl cs)"
  by pat_completeness auto
termination
  by (relation "measure (\<lambda>(var, repl, s). length s)") (auto dest: match_var_length)

text \<open>
  A replacement string without a backslash is taken literally; any other is handed to the
  template compiler before the text is searched, which may raise.
\<close>

definition re_sub :: "env \<Rightarrow> string \<Rightarrow> string \<Rightarrow> string \<Rightarrow> error + string" where
  "re_sub e var value s =
     (if CHR 0x5C \<notin> set value then Inr (sub_matches var (\<lambda>m. value) s)
      else (case compile_template e value of
              Inl err \<Rightarrow> Inl err
            | Inr repl \<Rightarrow> Inr (sub_matches var repl s)))"

text \<open>The loop of lines 322-326 over the names found.\<close>

fun substitute :: "env \<Rightarrow> (string \<Rightarrow> string option) \<Rightarrow> string list \<Rightarrow> string \<Rightarrow> error + string" where
  "substitute e attrs [] formula = Inr formula"
| "substitute e attrs (var # vars) formula =
     (case attrs var of
        None \<Rightarrow> substitute e attrs vars formula
      | Some value \<Rightarrow>
          (case re_sub e var value formula of
             Inl err \<Rightarrow> Inl err
           | Inr formula' \<Rightarrow> substitute e attrs vars formula'))"

text \<open>
  \<^verbatim>\<open>get_formula_based_commission\<close>. A partner without a formula makes \<^verbatim>\<open>re.findall\<close> raise
  \<^verbatim>\<open>TypeError\<close>; an exception of the evaluation is caught and gives \<^verbatim>\<open>None\<close>.
\<close>

definition get_formula_based_commission :: "env \<Rightarrow> sales_order \<Rightarrow> error + money option" where
  "get_formula_based_commission e doc =
     (case partner_formula e (sales_partner doc) of
        None \<Rightarrow> Inl TypeError
      | Some commission_formula \<Rightarrow>
          (case substitute e (doc_attr e doc) (findall commission_formula) commission_formula of
             Inl err \<Rightarrow> Inl err
           | Inr formula \<Rightarrow>
               (case safe_eval e formula of
                  Inl err \<Rightarrow> Inr None
                | Inr v \<Rightarrow> Inr v)))"

section \<open>\<^verbatim>\<open>create_erpnext_order\<close> (lines 120-302)\<close>

text \<open>\<^verbatim>\<open>frappe.new_doc("Sales Order")\<close>: no name, a draft, empty tables, nothing set.\<close>

definition new_doc :: sales_order where
  "new_doc =
     \<lparr>name = None, docstatus = 0, shipstation_store_name = [], shipstation_order_id = 0,
      shipstation_customer_notes = None, shipstation_internal_notes = None, marketplace = [],
      marketplace_order_id = [], customer = [], customer_name = [], company = [],
      transaction_date = 0, delivery_date = 0, shipping_address_name = None,
      customer_primary_address = None, integration_doctype = [], integration_doc = [],
      has_pii = False, sales_partner = None, items = [], taxes = [],
      dont_update_if_missing = [], apply_discount_on = None, discount_amount = 0,
      grand_total = 0\<rparr>"

text \<open>Lines 125-127: the customer of the store, or a customer made from the order.\<close>

definition resolve_customer :: "env \<Rightarrow> ss_order \<Rightarrow> store \<Rightarrow> customer_doc" where
  "resolve_customer e order st =
     (case store_customer st of
        None \<Rightarrow> create_customer e order
      | Some c \<Rightarrow> if c = [] then create_customer e order else get_cached_customer e c)"

text \<open>Lines 128-150: the header of the new document.\<close>

definition order_header :: "env \<Rightarrow> ss_order \<Rightarrow> store \<Rightarrow> sales_order" where
  "order_header e order st =
     (let cust = resolve_customer e order st;
          so = new_doc\<lparr>
            shipstation_store_name := store_name st,
            shipstation_order_id := order_id order,
            shipstation_customer_notes := customer_notes order,
            shipstation_internal_notes := internal_notes order,
            marketplace := marketplace_name st,
            marketplace_order_id := order_number order,
            customer := customer_docname cust,
            customer_name := customer_email order,
            company := store_company st,
            transaction_date := getdate e (order_date order),
            delivery_date := getdate e (ship_date order),
            shipping_address_name := customer_address cust,
            customer_primary_address := get_billing_address e (customer_docname cust),
            integration_doctype := ''Shipstation Settings'',
            integration_doc := parent st,
            has_pii := True\<rparr>
      in if truthy_str (store_sales_partner st)
         then so\<lparr>sales_partner := store_sales_partner st\<rparr>
         else so)"

text \<open>Lines 152-159: the hook of the store's marketplace, when one is registered.\<close>

definition update_order_hook :: "env \<Rightarrow> store \<Rightarrow> ss_order \<Rightarrow> sales_order \<Rightarrow> sales_order" where
  "update_order_hook e st order so =
     (if is_amazon_store st then
        (case get_hooks e ''update_shipstation_amazon_order'' of
           [] \<Rightarrow> so
         | h # _ \<Rightarrow> attr_update_order e h st order so)
      else if is_shopify_store st then
        (case get_hooks e ''update_shipstation_shopify_order'' of
           [] \<Rightarrow> so
         | h # _ \<Rightarrow> attr_update_order e h st order so)
      else so)"

text \<open>\<^verbatim>\<open>get_item_notes\<close> (lines 305-313): the value of the first option named Description.\<close>

fun first_description :: "ss_option list \<Rightarrow> string option" where
  "first_description [] = None"
| "first_description (opt # opts) =
     (if opt_name opt = ''Description'' then Some (opt_value opt) else first_description opts)"

definition get_item_notes :: "ss_item \<Rightarrow> string option" where
  "get_item_notes item =
     (case options item of None \<Rightarrow> None | Some opts \<Rightarrow> first_description opts)"

text \<open>Lines 183-198: the merchandise line of an item.\<close>

definition order_line :: "env \<Rightarrow> store \<Rightarrow> ss_item \<Rightarrow> so_item" where
  "order_line e st item =
     \<lparr>item_code = create_item e item (get_settings_doc e (parent st)) st,
      qty = quantity item,
      uom = stock_uom e,
      conversion_factor = 1,
      rate = flt (unit_price item),
      item_warehouse = warehouse st,
      shipstation_order_item_id = order_item_id item,
      shipstation_item_notes = get_item_notes item\<rparr>"

text \<open>
  The loop of lines 170-198, on the running \<^verbatim>\<open>discount_amount\<close> and the document: an item
  of quantity below 1 is skipped, a discount line adds to the discount, any other item
  becomes a merchandise line.
\<close>

definition is_discount_line :: "ss_item \<Rightarrow> bool" where
  "is_discount_line item = (line_item_key item = Some ''discount'')"

fun map_items :: "env \<Rightarrow> store \<Rightarrow> ss_item list \<Rightarrow> money \<times> sales_order \<Rightarrow> money \<times> sales_order" where
  "map_items e st [] acc = acc"
| "map_items e st (item # rest) (discount, so) =
     (if quantity item < 1 then map_items e st rest (discount, so)
      else if is_discount_line item
      then map_items e st rest (discount + \<bar>flt (unit_price item) * of_int (quantity item)\<bar>, so)
      else map_items e st rest (discount, so\<lparr>items := items so @ [order_line e st item]\<rparr>))"

definition append_charge :: "sales_order \<Rightarrow> charge \<Rightarrow> sales_order" where
  "append_charge so c = so\<lparr>taxes := taxes so @ [c]\<rparr>"

definition actual_charge :: "store \<Rightarrow> string \<Rightarrow> string \<Rightarrow> money \<Rightarrow> charge" where
  "actual_charge st account descr amount =
     \<lparr>charge_type = ''Actual'', account_head = account, description = descr,
      charge_amount = amount, charge_cost_center = cost_center st,
      included_in_paid_amount = 0\<rparr>"

text \<open>Lines 205-215: the tax charge.\<close>

definition add_tax_charge :: "ss_order \<Rightarrow> store \<Rightarrow> sales_order \<Rightarrow> sales_order" where
  "add_tax_charge order st so =
     (case tax_amount order of
        None \<Rightarrow> so
      | Some t \<Rightarrow>
          if t \<noteq> 0
          then append_charge so (actual_charge st (tax_account st) ''Shipstation Tax Amount'' t)
          else so)"

text \<open>Lines 217-227: the shipping charge.\<close>

definition add_shipping_charge :: "ss_order \<Rightarrow> store \<Rightarrow> sales_order \<Rightarrow> sales_order" where
  "add_shipping_charge order st so =
     (case shipping_amount order of
        None \<Rightarrow> so
      | Some s \<Rightarrow>
          if s \<noteq> 0
          then append_charge so
                 (actual_charge st (shipping_income_account st) ''Shipstation Shipping Amount'' s)
          else so)"

text \<open>
  \<^verbatim>\<open>Decimal(x).quantize(Decimal(".01"))\<close>: \<open>x\<close> rounded to two decimal places, a tie going
  to the even neighbour (the rounding of the default \<^verbatim>\<open>decimal\<close> context).
\<close>

definition round_half_even :: "rat \<Rightarrow> int" where
  "round_half_even x =
     (let f = \<lfloor>x\<rfloor>; d = x - of_int f
      in if d < 1 / 2 then f
         else if 1 / 2 < d then f + 1
         else if even f then f else f + 1)"

definition quantize2 :: "money \<Rightarrow> money" where
  "quantize2 x = of_int (round_half_even (x * 100)) / 100"

text \<open>Lines 233-248: the difference charge.\<close>

definition add_difference_charge :: "ss_order \<Rightarrow> store \<Rightarrow> sales_order \<Rightarrow> sales_order" where
  "add_difference_charge order st so =
     (case amount_paid order of
        None \<Rightarrow> so
      | Some paid \<Rightarrow>
          if paid \<noteq> 0 \<and> quantize2 (grand_total so) \<noteq> paid then
            (let difference_amount = quantize2 (grand_total so) - paid;
                 account =
                   (if Some difference_amount = shipping_amount order
                    then shipping_income_account st
                    else difference_account st)
             in append_charge so
                  (actual_charge st account ''Shipstation Difference Amount''
                     (- 1 * difference_amount)))
          else so)"

text \<open>Lines 250-261: the reversal of the tax for a store with withholding.\<close>

definition add_withholding_charge :: "ss_order \<Rightarrow> store \<Rightarrow> sales_order \<Rightarrow> sales_order" where
  "add_withholding_charge order st so =
     (case tax_amount order of
        None \<Rightarrow> so
      | Some t \<Rightarrow>
          if t \<noteq> 0 \<and> withholding st
          then append_charge so
                 (actual_charge st (tax_account st) ''Shipstation Tax Amount'' (t * - 1))
          else so)"

text \<open>Lines 263-265: the discount of the order.\<close>

definition apply_discount :: "money \<Rightarrow> sales_order \<Rightarrow> sales_order" where
  "apply_discount discount so =
     (if 0 < discount
      then so\<lparr>apply_discount_on := Some ''Grand Total'', discount_amount := discount\<rparr>
      else so)"

text \<open>Lines 267-284: the commission of the sales partner.\<close>

definition commission_charge :: "env \<Rightarrow> store \<Rightarrow> money \<Rightarrow> charge" where
  "commission_charge e st total_commission =
     \<lparr>charge_type = ''Actual'', account_head = commission_account st,
      description = ''Commission of '' @ str_number e total_commission,
      charge_amount = - total_commission, charge_cost_center = cost_center st,
      included_in_paid_amount = 1\<rparr>"

definition add_commission_charge :: "env \<Rightarrow> store \<Rightarrow> sales_order \<Rightarrow> error + sales_order" where
  "add_commission_charge e st so =
     (if truthy_str (sales_partner so) \<and> apply_commission st
         \<and> truthy_str (partner_formula e (store_sales_partner st))
      then (case get_formula_based_commission e so of
              Inl err \<Rightarrow> Inl err
            | Inr None \<Rightarrow> Inr so
            | Inr (Some total_commission) \<Rightarrow>
                (if total_commission \<noteq> 0
                 then Inr (append_charge so (commission_charge e st total_commission))
                 else Inr so))
      else Inr so)"

text \<open>Lines 123-124: the acting user of the run.\<close>

definition set_acting_user :: "settings \<Rightarrow> world \<Rightarrow> world" where
  "set_acting_user sett w =
     (case shipstation_user sett of
        None \<Rightarrow> w
      | Some u \<Rightarrow> if u = [] then w else set_user u w)"

text \<open>Line 162: the items of the order, none when the order has no such attribute.\<close>

definition fetched_items :: "ss_order \<Rightarrow> ss_item list" where
  "fetched_items order = (case order_items order of None \<Rightarrow> [] | Some its \<Rightarrow> its)"

text \<open>Lines 166-168: the hook on the items, when one is registered.\<close>

definition process_items_hook :: "env \<Rightarrow> ss_item list \<Rightarrow> ss_item list" where
  "process_items_hook e its =
     (case get_hooks e ''process_shipstation_order_items'' of
        [] \<Rightarrow> its
      | h # _ \<Rightarrow> attr_process_items e h its)"

text \<open>
  Lines 120-265: the document with its lines, charges and discount, before the commission
  is looked at, and the world after the first save; \<open>None\<close> when the order is given up
  (lines 164 and 201).
\<close>

definition prepare_order ::
  "env \<Rightarrow> ss_order \<Rightarrow> store \<Rightarrow> settings \<Rightarrow> world \<Rightarrow> world \<times> sales_order option" where
  "prepare_order e order st sett w =
     (let w0 = set_acting_user sett w;
          so0 = update_order_hook e st order (order_header e order st);
          order_items0 = fetched_items order
      in if order_items0 = [] then (w0, None)
         else
           (let order_items1 = process_items_hook e order_items0;
                (discount, so1) = map_items e st order_items1 (0, so0)
            in if items so1 = [] then (w0, None)
               else
                 (let so2 = so1\<lparr>dont_update_if_missing :=
                                   [''customer_name'', ''base_total_in_words'']\<rparr>;
                      so3 = add_shipping_charge order st (add_tax_charge order st so2);
                      (so4, w1) = save e so3 w0;
                      so5 = (if truthy_str (store_customer st)
                             then so4\<lparr>customer_name := customer_email order\<rparr>
                             else so4);
                      so6 = add_difference_charge order st so5;
                      so7 = add_withholding_charge order st so6;
                      so8 = apply_discount discount so7
                  in (w1, Some so8))))"

text \<open>
  Lines 120-286: the document as it is saved the second time, \<open>None\<close> when the order is
  given up, or the exception raised on the way.
\<close>

definition build_order ::
  "env \<Rightarrow> ss_order \<Rightarrow> store \<Rightarrow> settings \<Rightarrow> world \<Rightarrow> world \<times> (error + sales_order option)" where
  "build_order e order st sett w =
     (case prepare_order e order st sett w of
        (w0, None) \<Rightarrow> (w0, Inr None)
      | (w1, Some so8) \<Rightarrow>
          (case add_commission_charge e st so8 of
             Inl err \<Rightarrow> (w1, Inl err)
           | Inr so9 \<Rightarrow> (let (so10, w2) = save e so9 w1 in (w2, Inr (Some so10)))))"

text \<open>
  Lines 288-302. The call of the hook after submission is guarded by the list of the
  hooks before submission (line 298), and takes the first element of the list of the hooks
  after submission, which raises \<^verbatim>\<open>IndexError\<close> on an empty list.
\<close>

definition submit_order ::
  "env \<Rightarrow> ss_order \<Rightarrow> store \<Rightarrow> sales_order \<Rightarrow> world \<Rightarrow> world \<times> (error + string option)" where
  "submit_order e order st so w =
     (let before_submit_hook = get_hooks e ''update_shipstation_order_before_submit'';
          (so1, w1) =
            (case before_submit_hook of
               [] \<Rightarrow> (Some so, w)
             | h # _ \<Rightarrow>
                 (case attr_before_submit e h st so order of
                    None \<Rightarrow> (None, w)
                  | Some s \<Rightarrow> (let (s', w') = save e s w in (Some s', w'))));
          (so2, w2) =
            (case so1 of
               None \<Rightarrow> (None, w1)
             | Some s \<Rightarrow> (let (s', w') = submit e s w1 in (Some s', commit w')));
          after_submit_hook = get_hooks e ''update_shipstation_order_after_submit'';
          result = (case so2 of None \<Rightarrow> None | Some s \<Rightarrow> name s)
      in if before_submit_hook \<noteq> [] then
           (case after_submit_hook of
              [] \<Rightarrow> (w2, Inl IndexError)
            | a # _ \<Rightarrow>
                (commit (w2\<lparr>trace := trace w2 @ [AfterSubmitHook a st so2 order]\<rparr>), Inr result))
         else (w2, Inr result))"


definition create_erpnext_order ::
  "env \<Rightarrow> ss_order \<Rightarrow> store \<Rightarrow> settings \<Rightarrow> world \<Rightarrow> world \<times> (error + string option)" where
  "create_erpnext_order e order st sett w =
     (case build_order e order st sett w of
        (w', Inl err) \<Rightarrow> (w', Inl err)
      | (w', Inr None) \<Rightarrow> (w', Inr None)
      | (w', Inr (Some so)) \<Rightarrow> submit_order e order st so w')"

section \<open>The loop over the fetched orders (lines 81-90)\<close>

text \<open>
  \<open>sss_doc\<close> is the settings document, \<open>sss\<close> the element of the settings list that line 90
  hands to \<^verbatim>\<open>create_erpnext_order\<close>. An exception ends the run.
\<close>

fun process_orders ::
  "env \<Rightarrow> settings \<Rightarrow> settings \<Rightarrow> store \<Rightarrow> ss_order list \<Rightarrow> world \<Rightarrow> world \<times> (error + unit)" where
  "process_orders e sss_doc sss st [] w = (w, Inr ())"
| "process_orders e sss_doc sss st (order # orders) w =
     (if validate_order e w sss_doc (Some order) st then
        (let should_create_order =
               (case get_hooks e ''process_shipstation_order'' of
                  [] \<Rightarrow> True
                | h # _ \<Rightarrow> attr_process_order e h order st)
         in if should_create_order then
              (case create_erpnext_order e order st sss w of
                 (w', Inl err) \<Rightarrow> (w', Inl err)
               | (w', Inr _) \<Rightarrow> process_orders e sss_doc sss st orders w')
            else process_orders e sss_doc sss st orders w)
      else process_orders e sss_doc sss st orders w)"

section \<open>Example data\<close>

text \<open>
  A store, settings and an environment without registered hooks, for evaluating the
  functions on concrete orders. The environment's grand total is the merchandise plus the
  charges, as the spec describes it; its partners have no commission formula.
\<close>

definition demo_store :: store where
  "demo_store =
     \<lparr>store_id = 1, store_name = ''Web'', store_customer = None, marketplace_name = ''Shop'',
      store_company = ''ACME'', parent = ''SS-1'', store_sales_partner = None,
      is_amazon_store = False, is_shopify_store = False, enable_orders = True,
      warehouse = ''Main'', tax_account = ''Tax'', shipping_income_account = ''Shipping'',
      difference_account = ''Difference'', commission_account = ''Commission'',
      cost_center = ''CC'', apply_commission = False, withholding = False\<rparr>"

definition demo_settings :: settings where
  "demo_settings =
     \<lparr>settings_name = ''SS-1'', enabled = True, shipstation_user = None,
      active_warehouse_ids = [], since_date = None, shipstation_stores = [demo_store]\<rparr>"

definition demo_item :: "string \<Rightarrow> money \<Rightarrow> int \<Rightarrow> ss_item" where
  "demo_item key price n =
     \<lparr>quantity = n, unit_price = Some price, line_item_key = Some key, order_item_id = 7,
      options = None\<rparr>"

definition demo_order :: "ss_item list \<Rightarrow> money option \<Rightarrow> money option \<Rightarrow> money option \<Rightarrow> ss_order" where
  "demo_order its tax shipping paid =
     \<lparr>order_id = 42, order_number = ''N-42'', customer_email = ''a@b.c'',
      customer_notes = None, internal_notes = None, order_date = Some 10, ship_date = Some 12,
      create_date = Some 10, order_items = Some its, tax_amount = tax,
      shipping_amount = shipping, amount_paid = paid,
      advanced_options = \<lparr>warehouse_id = Some 3\<rparr>\<rparr>"

definition merchandise_total :: "sales_order \<Rightarrow> money" where
  "merchandise_total so = (\<Sum>l\<leftarrow>items so. of_int (qty l) * rate l)"

definition charges_total :: "sales_order \<Rightarrow> money" where
  "charges_total so = (\<Sum>c\<leftarrow>taxes so. charge_amount c)"

definition demo_env :: env where
  "demo_env =
     \<lparr>get_hooks = (\<lambda>h. []),
      attr_update_order = (\<lambda>p st order so. so),
      attr_process_items = (\<lambda>p its. its),
      attr_before_submit = (\<lambda>p st so order. Some so),
      attr_process_order = (\<lambda>p order st. True),
      today = 20,
      get_cached_customer = (\<lambda>c. \<lparr>customer_docname = c, customer_address = None\<rparr>),
      create_customer =
        (\<lambda>order. \<lparr>customer_docname = customer_email order, customer_address = None\<rparr>),
      get_billing_address = (\<lambda>c. None),
      get_settings_doc = (\<lambda>n. demo_settings),
      create_item = (\<lambda>item sett st. ''ITEM''),
      stock_uom = ''Nos'',
      new_name = (\<lambda>rows. ''SO-'' @ replicate (length rows) CHR ''I''),
      calculate_totals = (\<lambda>so. merchandise_total so + charges_total so),
      partner_formula = (\<lambda>p. None),
      doc_attr = (\<lambda>so v. None),
      safe_eval = (\<lambda>s. Inl EvalError),
      compile_template = (\<lambda>t. Inl ReError),
      str_number = (\<lambda>x. ''?'')\<rparr>"

definition empty_world :: world where
  "empty_world = \<lparr>db = [], trace = []\<rparr>"

text \<open>A world whose database holds one submitted Sales Order, of the external order 42.\<close>

definition submitted_world :: world where
  "submitted_world =
     \<lparr>db = [new_doc\<lparr>name := Some ''SO-1'', docstatus := 1, shipstation_order_id := 42\<rparr>],
      trace = []\<rparr>"

text \<open>The lines of the spec's example: a discount of 5 on two units, and one unit at 10.\<close>

definition discount_example :: "ss_item list" where
  "discount_example = [demo_item ''discount'' (- 5) 2, demo_item ''normal'' 10 1]"

definition discount_order :: ss_order where
  "discount_order = demo_order discount_example None None None"


section \<open>What each step leaves alone\<close>

lemma map_items_eq:
  "map_items e st its (d, so) =
     (d + (\<Sum>i\<leftarrow>filter is_discount_line (filter (\<lambda>i. 1 \<le> quantity i) its).
              \<bar>flt (unit_price i) * of_int (quantity i)\<bar>),
      so\<lparr>items := items so @ map (order_line e st)
             (filter (\<lambda>i. \<not> is_discount_line i) (filter (\<lambda>i. 1 \<le> quantity i) its))\<rparr>)"
  by (induction its arbitrary: d so) (auto simp: algebra_simps)

lemma append_charge_fields [simp]:
  "taxes (append_charge so c) = taxes so @ [c]"
  "items (append_charge so c) = items so"
  "discount_amount (append_charge so c) = discount_amount so"
  "sales_partner (append_charge so c) = sales_partner so"
  "grand_total (append_charge so c) = grand_total so"
  by (simp_all add: append_charge_def)

lemma add_tax_charge_fields [simp]:
  "items (add_tax_charge order st so) = items so"
  "discount_amount (add_tax_charge order st so) = discount_amount so"
  "sales_partner (add_tax_charge order st so) = sales_partner so"
  by (simp_all add: add_tax_charge_def split: option.splits)

lemma add_shipping_charge_fields [simp]:
  "items (add_shipping_charge order st so) = items so"
  "discount_amount (add_shipping_charge order st so) = discount_amount so"
  "sales_partner (add_shipping_charge order st so) = sales_partner so"
  by (simp_all add: add_shipping_charge_def split: option.splits)

lemma add_difference_charge_fields [simp]:
  "items (add_difference_charge order st so) = items so"
  "discount_amount (add_difference_charge order st so) = discount_amount so"
  "sales_partner (add_difference_charge order st so) = sales_partner so"
  by (simp_all add: add_difference_charge_def Let_def split: option.splits)

lemma add_withholding_charge_fields [simp]:
  "items (add_withholding_charge order st so) = items so"
  "discount_amount (add_withholding_charge order st so) = discount_amount so"
  "sales_partner (add_withholding_charge order st so) = sales_partner so"
  by (simp_all add: add_withholding_charge_def split: option.splits)

lemma apply_discount_fields [simp]:
  "items (apply_discount d so) = items so"
  "taxes (apply_discount d so) = taxes so"
  "sales_partner (apply_discount d so) = sales_partner so"
  "discount_amount (apply_discount d so) = (if 0 < d then d else discount_amount so)"
  by (simp_all add: apply_discount_def)

lemma store_doc_fields [simp]:
  "items (store_doc e so w) = items so"
  "taxes (store_doc e so w) = taxes so"
  "discount_amount (store_doc e so w) = discount_amount so"
  "sales_partner (store_doc e so w) = sales_partner so"
  "grand_total (store_doc e so w) = calculate_totals e so"
  "docstatus (store_doc e so w) = docstatus so"
  "shipstation_order_id (store_doc e so w) = shipstation_order_id so"
  by (simp_all add: store_doc_def)

lemma save_fst [simp]: "fst (save e so w) = store_doc e so w"
  by (simp add: save_def Let_def)





section \<open>The line items\<close>







section \<open>The difference charge\<close>









section \<open>The charges of the document\<close>





lemma map_items_taxes [simp]: "taxes (snd (map_items e st its (d, so))) = taxes so"
  by (simp add: map_items_eq)











section \<open>Submission and its hooks\<close>

text \<open>The hooks called after submission, as the trace shows them.\<close>

definition after_submit_calls :: "world \<Rightarrow> string list" where
  "after_submit_calls w =
     concat (map (\<lambda>ev. case ev of AfterSubmitHook p st so order \<Rightarrow> [p] | _ \<Rightarrow> []) (trace w))"

text \<open>
  Environments with a hook registered after submission only, before submission only, and
  at both places.
\<close>

definition after_hook_env :: env where
  "after_hook_env =
     demo_env\<lparr>get_hooks := (\<lambda>h. if h = ''update_shipstation_order_after_submit''
                                then [''app.after_submit''] else [])\<rparr>"

definition before_hook_env :: env where
  "before_hook_env =
     demo_env\<lparr>get_hooks := (\<lambda>h. if h = ''update_shipstation_order_before_submit''
                                then [''app.before_submit''] else [])\<rparr>"

definition both_hooks_env :: env where
  "both_hooks_env =
     demo_env\<lparr>get_hooks := (\<lambda>h. if h = ''update_shipstation_order_before_submit''
                                then [''app.before_submit'']
                              else if h = ''update_shipstation_order_after_submit''
                                then [''app.after_submit''] else [])\<rparr>"

text \<open>
  C9. With a hook registered after submission and none before, the order is submitted and
  the hook is never called; with a hook registered before submission and none after, the
  order is submitted and line 299 raises \<^verbatim>\<open>IndexError\<close>; the hook after submission is called
  when both are registered. So the call does not follow the registration of the hook
  after submission, as the claim has it, but that of the hook before submission.
\<close>

theorem after_submit_hook_guarded_by_before_hook:
  "get_hooks after_hook_env ''update_shipstation_order_after_submit'' = [''app.after_submit'']
   \<and> get_hooks after_hook_env ''update_shipstation_order_before_submit'' = []
   \<and> snd (create_erpnext_order after_hook_env discount_order demo_store demo_settings empty_world)
       = Inr (Some ''SO-'')
   \<and> map docstatus
        (db (fst (create_erpnext_order after_hook_env discount_order demo_store demo_settings
           empty_world))) = [1]
   \<and> after_submit_calls
        (fst (create_erpnext_order after_hook_env discount_order demo_store demo_settings
           empty_world)) = []
   \<and> get_hooks before_hook_env ''update_shipstation_order_after_submit'' = []
   \<and> get_hooks before_hook_env ''update_shipstation_order_before_submit'' = [''app.before_submit'']
   \<and> snd (create_erpnext_order before_hook_env discount_order demo_store demo_settings empty_world)
       = Inl IndexError
   \<and> map docstatus
        (db (fst (create_erpnext_order before_hook_env discount_order demo_store demo_settings
           empty_world))) = [1]
   \<and> after_submit_calls
        (fst (create_erpnext_order both_hooks_env discount_order demo_store demo_settings
           empty_world)) = [''app.after_submit'']"
proof -
  have a: "get_hooks after_hook_env ''update_shipstation_order_after_submit'' = [''app.after_submit'']"
    "get_hooks after_hook_env ''update_shipstation_order_before_submit'' = []"
    "get_hooks before_hook_env ''update_shipstation_order_after_submit'' = []"
    "get_hooks before_hook_env ''update_shipstation_order_before_submit'' = [''app.before_submit'']"
    by (simp_all add: after_hook_env_def before_hook_env_def)
  have b: "snd (create_erpnext_order after_hook_env discount_order demo_store demo_settings empty_world)
       = Inr (Some ''SO-'')"
    by code_simp
  have c: "map docstatus
        (db (fst (create_erpnext_order after_hook_env discount_order demo_store demo_settings
           empty_world))) = [1]"
    by code_simp
  have d: "after_submit_calls
        (fst (create_erpnext_order after_hook_env discount_order demo_store demo_settings
           empty_world)) = []"
    by code_simp
  have f: "snd (create_erpnext_order before_hook_env discount_order demo_store demo_settings empty_world)
       = Inl IndexError"
    by code_simp
  have g: "map docstatus
        (db (fst (create_erpnext_order before_hook_env discount_order demo_store demo_settings
           empty_world))) = [1]"
    by code_simp
  have h: "after_submit_calls
        (fst (create_erpnext_order both_hooks_env discount_order demo_store demo_settings
           empty_world)) = [''app.after_submit'']"
    by code_simp
  show ?thesis using a b c d f g h by simp
qed


section \<open>The commission\<close>










section \<open>Placeholders that stay\<close>




lemma literal_Some_iff: "literal p s = Some r \<longleftrightarrow> s = p @ r"
  by (auto simp: literal_def prefix_def)

lemma literal_append [simp]: "literal p (p @ r) = Some r"
  by (simp add: literal_Some_iff)

























section \<open>The validator\<close>

lemma get_submitted_order_found:
  assumes "r \<in> set (db w)" "shipstation_order_id r = oid" "docstatus r = 1"
  shows "get_submitted_order w oid \<noteq> None"
  using assms by (auto simp: get_submitted_order_def find_None_iff)

text \<open>
  C1. When the database holds a submitted Sales Order with the external identifier of a
  fetched order, \<open>validate_order\<close> returns false for that order, whatever the settings, the
  store and the hooks are; the loop over the fetched orders then passes the order by, so
  the run leaves the world as it would be without the order and submits nothing for it.
\<close>

theorem validate_order_rejects_submitted:
  assumes "r \<in> set (db w)"
    and "shipstation_order_id r = order_id order"
    and "docstatus r = 1"
  shows "validate_order e w sss_doc (Some order) st = False
    \<and> process_orders e sss_doc sss st (order # orders) w
        = process_orders e sss_doc sss st orders w"
proof -
  have found: "get_submitted_order w (order_id order) \<noteq> None"
    using assms by (rule get_submitted_order_found)
  then have rejected: "validate_order e w sss_doc (Some order) st = False"
    by (simp add: validate_order_def)
  then show ?thesis by simp
qed

theorem validate_order_rejects_submitted_witness:
  "hd (db submitted_world) \<in> set (db submitted_world)
   \<and> shipstation_order_id (hd (db submitted_world)) = order_id (demo_order [] None None None)
   \<and> docstatus (hd (db submitted_world)) = 1
   \<and> validate_order demo_env submitted_world demo_settings
        (Some (demo_order [] None None None)) demo_store = False
   \<and> process_orders demo_env demo_settings demo_settings demo_store
        [demo_order [] None None None] submitted_world = (submitted_world, Inr ())"
proof -
  have a: "hd (db submitted_world) \<in> set (db submitted_world)"
    by (simp add: submitted_world_def)
  have b: "shipstation_order_id (hd (db submitted_world)) = order_id (demo_order [] None None None)"
    by (simp add: submitted_world_def demo_order_def)
  have c: "docstatus (hd (db submitted_world)) = 1"
    by (simp add: submitted_world_def)
  show ?thesis
    using a b c
      validate_order_rejects_submitted [OF a b c, of demo_env demo_settings demo_store
        demo_settings "[]"]
    by simp
qed

text \<open>
  C2. An order whose warehouse id is not in a non-empty allow-list is rejected, whatever
  its other fields, the store and the database are. With an empty allow-list the result
  is the one of the remaining rules alone: the order is accepted exactly when no submitted
  Sales Order has its identifier and it is not older than the cutoff date.
\<close>

theorem validate_order_warehouse_rule:
  "(active_warehouse_ids sett \<noteq> []
      \<and> warehouse_id (advanced_options order) \<notin> set (active_warehouse_ids sett)
     \<longrightarrow> validate_order e w sett (Some order) st = False)
   \<and> (active_warehouse_ids sett = []
     \<longrightarrow> validate_order e w sett (Some order) st
         = (get_submitted_order w (order_id order) = None
            \<and> \<not> (case since_date sett of
                     None \<Rightarrow> False
                   | Some d \<Rightarrow> getdate e (create_date order) < d)))"
  by (simp add: validate_order_def)

theorem validate_order_warehouse_rule_witness:
  "active_warehouse_ids (demo_settings\<lparr>active_warehouse_ids := [Some 1, Some 2]\<rparr>) \<noteq> []
   \<and> warehouse_id (advanced_options (demo_order [] None None None))
        \<notin> set (active_warehouse_ids (demo_settings\<lparr>active_warehouse_ids := [Some 1, Some 2]\<rparr>))
   \<and> validate_order demo_env empty_world (demo_settings\<lparr>active_warehouse_ids := [Some 1, Some 2]\<rparr>)
        (Some (demo_order [] None None None)) demo_store = False
   \<and> active_warehouse_ids demo_settings = []
   \<and> validate_order demo_env empty_world demo_settings
        (Some (demo_order [] None None None)) demo_store = True"
  using validate_order_warehouse_rule [of "demo_settings\<lparr>active_warehouse_ids := [Some 1, Some 2]\<rparr>"
      "demo_order [] None None None" demo_env empty_world demo_store]
    validate_order_warehouse_rule [of demo_settings "demo_order [] None None None"
      demo_env empty_world demo_store]
  by (simp add: demo_settings_def demo_order_def empty_world_def get_submitted_order_def)

end
